theory Spec2Isabelle
  imports Main
begin

section \<open>The browser objects the widget works on\<close>

text \<open>
  The model follows \<^verbatim>\<open>src/droppable.ts\<close>. A \<^verbatim>\<open>File\<close> is an opaque handle; the widget
  never looks inside it, so a handle is a name here.
\<close>

datatype file_handle = File string

text \<open>
  The two kinds of exception on the widget's paths: the \<^verbatim>\<open>Error\<close> the code throws itself
  (with its message), and the \<^verbatim>\<open>TypeError\<close> the language raises (\<^verbatim>\<open>Array.from(undefined)\<close>,
  a property read on \<^verbatim>\<open>undefined\<close>, a call of a non-function).
\<close>

datatype error = Error string | TypeError string

text \<open>
  A call either returns or throws. Both carry the state as it is at that moment: what
  was mutated before a \<^verbatim>\<open>throw\<close> stays mutated.
\<close>

datatype 'a result = Returned 'a | Threw error 'a

fun final :: "'a result \<Rightarrow> 'a" where
  "final (Returned s) = s"
| "final (Threw err s) = s"

fun throws :: "'a result \<Rightarrow> bool" where
  "throws (Returned s) = False"
| "throws (Threw err s) = True"

text \<open>The private methods the class hands to \<^verbatim>\<open>addEventListener\<close>.\<close>

datatype handler =
    OnElementDragOver
  | OnElementDragLeave
  | OnElementDrop
  | OnElementClick
  | OnVirtualInputElementChange

text \<open>
  A function object as the listener table of an element sees it, that is up to identity:
  \<open>Method h\<close> is the method \<open>h\<close> itself as read from the instance
  (\<^verbatim>\<open>this.onElementDrop\<close>), \<open>Bound h\<close> is the function object that
  \<^verbatim>\<open>h.bind(this)\<close> returned, which is a new object and never identical to \<open>h\<close>, and
  \<open>Other n\<close> is a listener some other code installed. The bound functions come into
  being in the constructor, so no listener table holds one before the instance is
  constructed.
\<close>

datatype callback = Method handler | Bound handler | Other nat

fun isBound :: "callback \<Rightarrow> bool" where
  "isBound (Bound h) = True"
| "isBound (Method h) = False"
| "isBound (Other n) = False"

text \<open>
  An \<^verbatim>\<open>HTMLElement\<close>: its class list (\<^verbatim>\<open>DOMTokenList\<close>) and its listener table, a list of
  event name and callback in the order of registration.
\<close>

record html_element =
  classList :: "string list"
  listeners :: "(string \<times> callback) list"

text \<open>
  An \<^verbatim>\<open>HTMLInputElement\<close> is an \<^verbatim>\<open>HTMLElement\<close> with attributes, the \<^verbatim>\<open>display\<close> of its style,
  and the number of times \<^verbatim>\<open>click()\<close> was called on it (each call opens the native file
  picker).
\<close>

record input_element = html_element +
  attributes :: "string \<rightharpoonup> string"
  styleDisplay :: string
  clickCalls :: nat

definition classList_add :: "string \<Rightarrow> 'a html_element_scheme \<Rightarrow> 'a html_element_scheme" where
  "classList_add token el =
     (if token \<in> set (classList el) then el
      else el\<lparr>classList := classList el @ [token]\<rparr>)"

definition classList_remove :: "string \<Rightarrow> 'a html_element_scheme \<Rightarrow> 'a html_element_scheme" where
  "classList_remove token el = el\<lparr>classList := removeAll token (classList el)\<rparr>"

text \<open>
  \<^verbatim>\<open>addEventListener\<close> appends the pair unless the same callback is already registered for
  the event; \<^verbatim>\<open>removeEventListener\<close> removes the registration of that very callback, and
  does nothing when there is none.
\<close>

definition addEventListener ::
  "string \<Rightarrow> callback \<Rightarrow> 'a html_element_scheme \<Rightarrow> 'a html_element_scheme" where
  "addEventListener eventName cb el =
     (if (eventName, cb) \<in> set (listeners el) then el
      else el\<lparr>listeners := listeners el @ [(eventName, cb)]\<rparr>)"

definition removeEventListener ::
  "string \<Rightarrow> callback \<Rightarrow> 'a html_element_scheme \<Rightarrow> 'a html_element_scheme" where
  "removeEventListener eventName cb el =
     el\<lparr>listeners := remove1 (eventName, cb) (listeners el)\<rparr>"

definition setAttribute :: "string \<Rightarrow> string \<Rightarrow> input_element \<Rightarrow> input_element" where
  "setAttribute attr v inp = inp\<lparr>attributes := (attributes inp)(attr \<mapsto> v)\<rparr>"

definition click :: "input_element \<Rightarrow> input_element" where
  "click inp = inp\<lparr>clickCalls := Suc (clickCalls inp)\<rparr>"

definition createInputElement :: input_element where
  "createInputElement =
     \<lparr>classList = [], listeners = [], attributes = Map.empty, styleDisplay = [], clickCalls = 0\<rparr>"

text \<open>
  The event a handler receives; the handlers read it as an untyped object
  (\<^verbatim>\<open>{ [key: string]: any }\<close>). \<^verbatim>\<open>dataTransfer\<close> is the drag payload, absent (\<^verbatim>\<open>null\<close> or
  \<^verbatim>\<open>undefined\<close>) on events that are no drag events; \<^verbatim>\<open>target\<close> is the object the event was
  fired on, absent on an event that was never dispatched. Either may or may not have a
  file collection \<^verbatim>\<open>files\<close>: the payload of a browser's drag event has one, a file input
  has one, any other object has \<^verbatim>\<open>undefined\<close> there. The two flags record that the
  handler called \<^verbatim>\<open>preventDefault()\<close> and \<^verbatim>\<open>stopPropagation()\<close> on the event.
\<close>

datatype data_transfer = DataTransfer (files: "file_handle list option")

datatype event_target = EventTarget (target_files: "file_handle list option")

record event =
  dataTransfer :: "data_transfer option"
  target :: "event_target option"
  preventDefaultCalled :: bool
  stopPropagationCalled :: bool

definition preventDefault :: "event \<Rightarrow> event" where
  "preventDefault e = e\<lparr>preventDefaultCalled := True\<rparr>"

definition stopPropagation :: "event \<Rightarrow> event" where
  "stopPropagation e = e\<lparr>stopPropagationCalled := True\<rparr>"

text \<open>
  \<^verbatim>\<open>Array.from(files)\<close>: the files of a \<^verbatim>\<open>FileList\<close> in its order; a \<^verbatim>\<open>TypeError\<close> on
  \<^verbatim>\<open>undefined\<close>.
\<close>

definition array_from :: "file_handle list option \<Rightarrow> error + file_handle list" where
  "array_from fl =
     (case fl of
        None \<Rightarrow> Inl (TypeError ''undefined is not iterable'')
      | Some fs \<Rightarrow> Inr fs)"

section \<open>The notification channel\<close>

text \<open>
  Modelled from the spec: the notification channel is an event of the \<^verbatim>\<open>noel\<close> library,
  which the class imports and which is no part of the sources. The channel is a single
  named event with a configuration, its registered listeners, and the payloads emitted
  on it so far, oldest first. \<open>emit\<close> adds one notification carrying the payload;
  \<open>on\<close> registers a listener. What a listener does with a payload is the hosting
  application's code.
\<close>

record noel_config =
  replay :: bool
  replayBufferSize :: nat

record noel_event =
  noelEventName :: string
  noelConfig :: noel_config
  noelListeners :: "nat list"
  emitted :: "file_handle list list"

definition getEvent :: "string \<Rightarrow> noel_config \<Rightarrow> noel_event" where
  "getEvent eventName cfg =
     \<lparr>noelEventName = eventName, noelConfig = cfg, noelListeners = [], emitted = []\<rparr>"

definition emit :: "file_handle list \<Rightarrow> noel_event \<Rightarrow> noel_event" where
  "emit payload ev = ev\<lparr>emitted := emitted ev @ [payload]\<rparr>"

definition on :: "nat \<Rightarrow> noel_event \<Rightarrow> noel_event" where
  "on listener ev = ev\<lparr>noelListeners := noelListeners ev @ [listener]\<rparr>"

section \<open>The class Droppable\<close>

text \<open>
  \<^verbatim>\<open>DroppableSettings\<close>. The constructor tests every field at run time, so every field may
  be missing, \<^verbatim>\<open>element\<close> too.
\<close>

record droppable_settings =
  config_element :: "html_element option"
  config_appendStatusClasses :: "bool option"
  config_acceptsMultipleFiles :: "bool option"
  config_isClickable :: "bool option"
  config_eventConfig :: "noel_config option"

text \<open>
  The instance. A remover (\<^verbatim>\<open>elementEventsRemover\<close>) is a closure over a list of closures,
  each holding an event name and a listener; it is kept as that list of pairs.
  \<^verbatim>\<open>latestDroppedFiles\<close> is \<^verbatim>\<open>undefined\<close> until the first assignment. The multiple-files
  setting has no field.
\<close>

record droppable =
  dragOverClass :: string
  appendStatusClasses :: bool
  isClickable :: bool
  filesWereDroppedEvent :: noel_event
  element :: html_element
  elementEventsRemover :: "(string \<times> callback) list"
  virtualInputElement :: input_element
  virtualInputElementEventsRemover :: "(string \<times> callback) list"
  latestDroppedFiles :: "file_handle list option"

definition makeVirtualInputElement :: input_element where
  "makeVirtualInputElement =
     (let input = createInputElement;
          input = setAttribute ''type'' ''file'' input;
          input = input\<lparr>styleDisplay := ''none''\<rparr>
      in input)"

definition getLatestDroppedFiles :: "droppable \<Rightarrow> file_handle list" where
  "getLatestDroppedFiles this =
     (case latestDroppedFiles this of Some fs \<Rightarrow> fs | None \<Rightarrow> [])"

definition onFilesDropped :: "nat \<Rightarrow> droppable \<Rightarrow> droppable" where
  "onFilesDropped listener this =
     this\<lparr>filesWereDroppedEvent := on listener (filesWereDroppedEvent this)\<rparr>"

definition promptForFiles :: "droppable \<Rightarrow> droppable" where
  "promptForFiles this = this\<lparr>virtualInputElement := click (virtualInputElement this)\<rparr>"

definition setIsClickable :: "bool \<Rightarrow> droppable \<Rightarrow> droppable" where
  "setIsClickable clickable this = this\<lparr>isClickable := clickable\<rparr>"

definition boolean_toString :: "bool \<Rightarrow> string" where
  "boolean_toString b = (if b then ''true'' else ''false'')"

definition setAcceptsMultipleFiles :: "bool \<Rightarrow> droppable \<Rightarrow> droppable" where
  "setAcceptsMultipleFiles acceptsMultipleFiles this =
     this\<lparr>virtualInputElement :=
       setAttribute ''multiple'' (boolean_toString acceptsMultipleFiles) (virtualInputElement this)\<rparr>"

definition setAppendStatusClasses :: "bool \<Rightarrow> droppable \<Rightarrow> droppable" where
  "setAppendStatusClasses b this = this\<lparr>appendStatusClasses := b\<rparr>"

text \<open>
  \<^verbatim>\<open>registerElementEventsWithDictionary\<close>: for every entry of the dictionary, in the order
  of its keys, the listener registered is \<^verbatim>\<open>eventListener.bind(this)\<close>, and the remover
  pushed is a closure that calls \<^verbatim>\<open>removeEventListener(eventName, eventListener)\<close>, with
  the method itself. The result is the element and the removers.
\<close>

fun registerElementEventsWithDictionary ::
  "'a html_element_scheme \<Rightarrow> (string \<times> handler) list \<Rightarrow>
     'a html_element_scheme \<times> (string \<times> callback) list" where
  "registerElementEventsWithDictionary el [] = (el, [])"
| "registerElementEventsWithDictionary el ((eventName, eventListener) # rest) =
     (let el' = addEventListener eventName (Bound eventListener) el;
          (el'', eventRemovers) = registerElementEventsWithDictionary el' rest
      in (el'', (eventName, Method eventListener) # eventRemovers))"

text \<open>Running a remover: every closure in it calls \<^verbatim>\<open>removeEventListener\<close> on the element.\<close>

fun runEventRemovers ::
  "(string \<times> callback) list \<Rightarrow> 'a html_element_scheme \<Rightarrow> 'a html_element_scheme" where
  "runEventRemovers [] el = el"
| "runEventRemovers ((eventName, eventListener) # rest) el =
     runEventRemovers rest (removeEventListener eventName eventListener el)"

definition getVirtualInputElementEventsDictionary :: "(string \<times> handler) list" where
  "getVirtualInputElementEventsDictionary = [(''change'', OnVirtualInputElementChange)]"

definition getElementEventsDictionary :: "(string \<times> handler) list" where
  "getElementEventsDictionary =
     [(''dragover'', OnElementDragOver),
      (''dragleave'', OnElementDragLeave),
      (''drop'', OnElementDrop),
      (''click'', OnElementClick)]"

definition registerElementEvents :: "droppable \<Rightarrow> droppable" where
  "registerElementEvents this =
     (let (el, remover) = registerElementEventsWithDictionary (element this) getElementEventsDictionary
      in this\<lparr>element := el, elementEventsRemover := remover\<rparr>)"

definition registerVirtualInputElementEvents :: "droppable \<Rightarrow> droppable" where
  "registerVirtualInputElementEvents this =
     (let (el, remover) =
            registerElementEventsWithDictionary (virtualInputElement this)
              getVirtualInputElementEventsDictionary
      in this\<lparr>virtualInputElement := el, virtualInputElementEventsRemover := remover\<rparr>)"

definition cleanUp :: "droppable \<Rightarrow> droppable" where
  "cleanUp this =
     (let this = this\<lparr>element := runEventRemovers (elementEventsRemover this) (element this)\<rparr>;
          this = this\<lparr>virtualInputElement :=
                   runEventRemovers (virtualInputElementEventsRemover this) (virtualInputElement this)\<rparr>
      in this)"

definition defaultEventConfig :: noel_config where
  "defaultEventConfig = \<lparr>replay = True, replayBufferSize = 1\<rparr>"

definition emptySettings :: droppable_settings where
  "emptySettings =
     \<lparr>config_element = None, config_appendStatusClasses = None,
      config_acceptsMultipleFiles = None, config_isClickable = None,
      config_eventConfig = None\<rparr>"

text \<open>
  The constructor. A missing element is the only failure, and it comes first. The
  instance starts with the field initialiser \<^verbatim>\<open>dragOverClass = 'dragover'\<close> and with the
  hidden input; the flags are set by the setters and the listeners are registered in the
  order of the source (until then the flags are falsy, the list of files is
  \<^verbatim>\<open>undefined\<close> and the removers are empty). The channel and \<^verbatim>\<open>element\<close>, which the
  source assigns between the setters and the registration and which nothing reads
  before, stand in the initial record.
\<close>

definition constructor :: "droppable_settings option \<Rightarrow> error + droppable" where
  "constructor config0 =
     (let config = (case config0 of Some c \<Rightarrow> c | None \<Rightarrow> emptySettings) in
      case config_element config of
        None \<Rightarrow> Inl (Error ''config.element: HTMLElement is required'')
      | Some el \<Rightarrow>
          (let isClickable0 = (case config_isClickable config of Some b \<Rightarrow> b | None \<Rightarrow> True);
               acceptsMultipleFiles0 =
                 (case config_acceptsMultipleFiles config of Some b \<Rightarrow> b | None \<Rightarrow> True);
               appendStatusClasses0 =
                 (case config_appendStatusClasses config of Some b \<Rightarrow> b | None \<Rightarrow> True);
               this = \<lparr>dragOverClass = ''dragover'',
                       appendStatusClasses = False,
                       isClickable = False,
                       filesWereDroppedEvent =
                         getEvent ''drop''
                           (case config_eventConfig config of
                              Some c \<Rightarrow> c | None \<Rightarrow> defaultEventConfig),
                       element = el,
                       elementEventsRemover = [],
                       virtualInputElement = makeVirtualInputElement,
                       virtualInputElementEventsRemover = [],
                       latestDroppedFiles = None\<rparr>;
               this = setIsClickable isClickable0 this;
               this = setAcceptsMultipleFiles acceptsMultipleFiles0 this;
               this = setAppendStatusClasses appendStatusClasses0 this;
               this = registerElementEvents this;
               this = registerVirtualInputElementEvents this
           in Inr this))"

subsection \<open>The handlers\<close>

definition emitFilesWereDropped :: "file_handle list \<Rightarrow> droppable \<Rightarrow> droppable" where
  "emitFilesWereDropped fs this =
     this\<lparr>filesWereDroppedEvent := emit fs (filesWereDroppedEvent this)\<rparr>"

definition setLatestDrop :: "file_handle list \<Rightarrow> droppable \<Rightarrow> droppable" where
  "setLatestDrop fs this = emitFilesWereDropped fs (this\<lparr>latestDroppedFiles := Some fs\<rparr>)"

text \<open>
  \<^verbatim>\<open>onDroppableElementChange\<close>: \<^verbatim>\<open>files\<close> is read from the drag payload when the event has
  one, else from the target when the event has one, else the method throws. Where the
  object read has no file collection, \<^verbatim>\<open>files\<close> is \<^verbatim>\<open>undefined\<close> and \<^verbatim>\<open>Array.from\<close> throws;
  a payload without files is not followed by a look at the target.
\<close>

definition onDroppableElementChange :: "droppable \<Rightarrow> event \<Rightarrow> droppable result" where
  "onDroppableElementChange this e =
     (case (case dataTransfer e of
              Some dt \<Rightarrow> Inr (files dt)
            | None \<Rightarrow>
                (case target e of
                   Some t \<Rightarrow> Inr (target_files t)
                 | None \<Rightarrow> Inl (Error ''Fired event contains no files''))) of
        Inl err \<Rightarrow> Threw err this
      | Inr fl \<Rightarrow>
          (case array_from fl of
             Inl err \<Rightarrow> Threw err this
           | Inr filesArray \<Rightarrow> Returned (setLatestDrop filesArray this)))"

definition onElementDragOver :: "droppable \<Rightarrow> event \<Rightarrow> (droppable \<times> event) result" where
  "onElementDragOver this e =
     (let e = preventDefault e;
          e = stopPropagation e;
          this = this\<lparr>element := classList_add (dragOverClass this) (element this)\<rparr>
      in Returned (this, e))"

definition onElementDragLeave :: "droppable \<Rightarrow> event \<Rightarrow> (droppable \<times> event) result" where
  "onElementDragLeave this e =
     (let e = preventDefault e;
          e = stopPropagation e;
          this = this\<lparr>element := classList_remove (dragOverClass this) (element this)\<rparr>
      in Returned (this, e))"

definition onElementDrop :: "droppable \<Rightarrow> event \<Rightarrow> (droppable \<times> event) result" where
  "onElementDrop this e =
     (let e = preventDefault e;
          e = stopPropagation e;
          this = this\<lparr>element := classList_remove (dragOverClass this) (element this)\<rparr>
      in case onDroppableElementChange this e of
           Threw err this' \<Rightarrow> Threw err (this', e)
         | Returned this' \<Rightarrow> Returned (this', e))"

definition onElementClick :: "droppable \<Rightarrow> event \<Rightarrow> (droppable \<times> event) result" where
  "onElementClick this e =
     Returned (if isClickable this then promptForFiles this else this, e)"

definition onVirtualInputElementChange :: "droppable \<Rightarrow> event \<Rightarrow> (droppable \<times> event) result" where
  "onVirtualInputElementChange this e =
     (case onDroppableElementChange this e of
        Threw err this' \<Rightarrow> Threw err (this', e)
      | Returned this' \<Rightarrow> Returned (this', e))"

subsection \<open>Dispatching an event\<close>

text \<open>
  Calling a registered listener. A bound method runs on the instance. A method that was
  registered unbound would run with the element as \<^verbatim>\<open>this\<close>: \<^verbatim>\<open>this.element\<close> and
  \<^verbatim>\<open>this.isClickable\<close> are \<^verbatim>\<open>undefined\<close> there and \<^verbatim>\<open>this.onDroppableElementChange\<close> is no
  function. Another code's listener does not touch the instance.
\<close>

fun call :: "callback \<Rightarrow> droppable \<Rightarrow> event \<Rightarrow> (droppable \<times> event) result" where
  "call (Bound OnElementDragOver) this e = onElementDragOver this e"
| "call (Bound OnElementDragLeave) this e = onElementDragLeave this e"
| "call (Bound OnElementDrop) this e = onElementDrop this e"
| "call (Bound OnElementClick) this e = onElementClick this e"
| "call (Bound OnVirtualInputElementChange) this e = onVirtualInputElementChange this e"
| "call (Method OnElementClick) this e = Returned (this, e)"
| "call (Method OnVirtualInputElementChange) this e =
     Threw (TypeError ''this.onDroppableElementChange is not a function'') (this, e)"
| "call (Method h) this e =
     Threw (TypeError ''Cannot read properties of undefined'')
       (this, stopPropagation (preventDefault e))"
| "call (Other n) this e = Returned (this, e)"

text \<open>
  The listeners of an event run in the order of their registration. An exception a
  listener throws is reported to the page (here: collected) and the next listener
  still runs.
\<close>

fun invoke ::
  "callback list \<Rightarrow> droppable \<Rightarrow> event \<Rightarrow> error list \<Rightarrow> droppable \<times> event \<times> error list" where
  "invoke [] this e errs = (this, e, errs)"
| "invoke (cb # cbs) this e errs =
     (case call cb this e of
        Returned (this', e') \<Rightarrow> invoke cbs this' e' errs
      | Threw err (this', e') \<Rightarrow> invoke cbs this' e' (errs @ [err]))"

definition listenersFor :: "string \<Rightarrow> 'a html_element_scheme \<Rightarrow> callback list" where
  "listenersFor eventName el = map snd (filter (\<lambda>l. fst l = eventName) (listeners el))"

definition dispatchOnElement :: "string \<Rightarrow> event \<Rightarrow> droppable \<Rightarrow> droppable \<times> event \<times> error list" where
  "dispatchOnElement eventName e this = invoke (listenersFor eventName (element this)) this e []"

definition dispatchOnVirtualInput ::
  "string \<Rightarrow> event \<Rightarrow> droppable \<Rightarrow> droppable \<times> event \<times> error list" where
  "dispatchOnVirtualInput eventName e this =
     invoke (listenersFor eventName (virtualInputElement this)) this e []"

subsection \<open>The life of an instance\<close>

text \<open>
  What can happen to an instance once it is constructed: a call of a public method, or
  the browser firing an event on the host element or on the hidden input.
\<close>

datatype operation =
    OnFilesDropped nat
  | CleanUp
  | GetLatestDroppedFiles
  | PromptForFiles
  | SetIsClickable bool
  | SetAcceptsMultipleFiles bool
  | SetAppendStatusClasses bool
  | FireOnElement string event
  | FireOnVirtualInput string event

fun step :: "operation \<Rightarrow> droppable \<Rightarrow> droppable" where
  "step (OnFilesDropped listener) this = onFilesDropped listener this"
| "step CleanUp this = cleanUp this"
| "step GetLatestDroppedFiles this = this"
| "step PromptForFiles this = promptForFiles this"
| "step (SetIsClickable b) this = setIsClickable b this"
| "step (SetAcceptsMultipleFiles b) this = setAcceptsMultipleFiles b this"
| "step (SetAppendStatusClasses b) this = setAppendStatusClasses b this"
| "step (FireOnElement eventName e) this = fst (dispatchOnElement eventName e this)"
| "step (FireOnVirtualInput eventName e) this = fst (dispatchOnVirtualInput eventName e this)"

fun run :: "operation list \<Rightarrow> droppable \<Rightarrow> droppable" where
  "run [] this = this"
| "run (x # xs) this = run xs (step x this)"

text \<open>The payload of the last notification emitted, the empty list when there is none.\<close>

definition lastEmitted :: "droppable \<Rightarrow> file_handle list" where
  "lastEmitted this =
     (case emitted (filesWereDroppedEvent this) of [] \<Rightarrow> [] | p # ps \<Rightarrow> last (p # ps))"

text \<open>
  The direct query and the channel agree: what \<open>getLatestDroppedFiles\<close> returns is the
  payload of the last notification.
\<close>

definition synced :: "droppable \<Rightarrow> bool" where
  "synced this = (getLatestDroppedFiles this = lastEmitted this)"

text \<open>
  The listeners that registration with a dictionary adds, and the wiring of the host
  element that the constructor sets up: the status class is \<open>dragover\<close>, no remover
  names a bound function, and the listener table is what other code put there followed
  by the bound handlers of the element's dictionary, in its order.
\<close>

definition boundListeners :: "(string \<times> handler) list \<Rightarrow> (string \<times> callback) list" where
  "boundListeners dict = map (\<lambda>(n, h). (n, Bound h)) dict"

definition wired :: "droppable \<Rightarrow> bool" where
  "wired this =
     (dragOverClass this = ''dragover'' \<and>
      (\<forall>r \<in> set (elementEventsRemover this). \<not> isBound (snd r)) \<and>
      (\<exists>pre. (\<forall>l \<in> set pre. \<not> isBound (snd l)) \<and>
         listeners (element this) = pre @ boundListeners getElementEventsDictionary))"

subsection \<open>Concrete instances and events\<close>

text \<open>
  A host element that already has a class and a click listener of the page's own, the
  settings that name only this element, and the instance constructed from them.
\<close>

definition exampleElement :: html_element where
  "exampleElement = \<lparr>classList = [''zone''], listeners = [(''click'', Other 0)]\<rparr>"

definition exampleSettings :: droppable_settings where
  "exampleSettings = emptySettings\<lparr>config_element := Some exampleElement\<rparr>"

definition exampleInstance :: droppable where
  "exampleInstance = projr (constructor (Some exampleSettings))"

definition singleFileSettings :: droppable_settings where
  "singleFileSettings = exampleSettings\<lparr>config_acceptsMultipleFiles := Some False\<rparr>"

definition singleFileInstance :: droppable where
  "singleFileInstance = projr (constructor (Some singleFileSettings))"

text \<open>
  A drop of files on the host element (the target, a plain element, has no file
  collection), a change of the hidden input (no drag payload, the target is the input
  with its selection), and an event that carries no drag payload.
\<close>

definition dropEvent :: "file_handle list \<Rightarrow> event" where
  "dropEvent fs =
     \<lparr>dataTransfer = Some (DataTransfer (Some fs)), target = Some (EventTarget None),
      preventDefaultCalled = False, stopPropagationCalled = False\<rparr>"

definition changeEvent :: "file_handle list \<Rightarrow> event" where
  "changeEvent fs =
     \<lparr>dataTransfer = None, target = Some (EventTarget (Some fs)),
      preventDefaultCalled = False, stopPropagationCalled = False\<rparr>"

definition bareEvent :: "event_target option \<Rightarrow> event" where
  "bareEvent t =
     \<lparr>dataTransfer = None, target = t,
      preventDefaultCalled = False, stopPropagationCalled = False\<rparr>"

text \<open>
  An event whose drag payload has no file collection, while its target holds a file.
\<close>

definition payloadWithoutFilesEvent :: event where
  "payloadWithoutFilesEvent =
     \<lparr>dataTransfer = Some (DataTransfer None), target = Some (EventTarget (Some [File ''a''])),
      preventDefaultCalled = False, stopPropagationCalled = False\<rparr>"

definition afterOneDrop :: droppable where
  "afterOneDrop = fst (final (onElementDrop exampleInstance (dropEvent [File ''a''])))"

definition exampleOperations :: "operation list" where
  "exampleOperations =
     [FireOnElement ''dragover'' (dropEvent []),
      FireOnElement ''drop'' (dropEvent [File ''a'', File ''b'']),
      SetAcceptsMultipleFiles False,
      CleanUp,
      FireOnVirtualInput ''change'' (changeEvent [File ''c'']),
      FireOnElement ''drop'' (bareEvent None)]"

section \<open>Properties\<close>

subsection \<open>Auxiliary facts\<close>

lemmas handler_defs =
  onDroppableElementChange_def onElementDrop_def onVirtualInputElementChange_def
  onElementDragOver_def onElementDragLeave_def onElementClick_def
  array_from_def preventDefault_def stopPropagation_def classList_add_def classList_remove_def
  setLatestDrop_def emitFilesWereDropped_def emit_def getLatestDroppedFiles_def

lemmas construct_defs =
  constructor_def emptySettings_def defaultEventConfig_def makeVirtualInputElement_def
  createInputElement_def setAttribute_def getEvent_def setIsClickable_def
  setAcceptsMultipleFiles_def setAppendStatusClasses_def boolean_toString_def
  registerElementEvents_def registerVirtualInputElementEvents_def
  getElementEventsDictionary_def getVirtualInputElementEventsDictionary_def
  addEventListener_def

text \<open>Storing a list and emitting it go together.\<close>

lemma setLatestDrop_latest: "getLatestDroppedFiles (setLatestDrop fs this) = fs"
  by (simp add: setLatestDrop_def emitFilesWereDropped_def getLatestDroppedFiles_def)

lemma setLatestDrop_emitted:
  "emitted (filesWereDroppedEvent (setLatestDrop fs this)) =
     emitted (filesWereDroppedEvent this) @ [fs]"
  by (simp add: setLatestDrop_def emitFilesWereDropped_def emit_def)

lemma lastEmitted_snoc:
  "emitted (filesWereDroppedEvent this) = ps @ [fs] \<Longrightarrow> lastEmitted this = fs"
  by (cases ps) (simp_all add: lastEmitted_def)

lemma setLatestDrop_synced: "synced (setLatestDrop fs this)"
  by (simp add: synced_def setLatestDrop_latest lastEmitted_snoc [OF setLatestDrop_emitted])

text \<open>The outcomes of the shared path \<open>onDroppableElementChange\<close>.\<close>

lemma change_Returned:
  "onDroppableElementChange this e = Returned this' \<Longrightarrow> \<exists>fs. this' = setLatestDrop fs this"
  by (auto simp: onDroppableElementChange_def array_from_def split: option.splits sum.splits)

lemma change_Threw:
  "onDroppableElementChange this e = Threw err this' \<Longrightarrow> this' = this"
  by (auto simp: onDroppableElementChange_def array_from_def split: option.splits sum.splits)

lemma change_throws:
  "throws (onDroppableElementChange this e) =
     (dataTransfer e = Some (DataTransfer None) \<or>
      dataTransfer e = None \<and> (target e = None \<or> target e = Some (EventTarget None)))"
proof (cases "dataTransfer e")
  case (Some dt)
  then show ?thesis
    by (cases dt; cases "files dt")
       (simp_all add: onDroppableElementChange_def array_from_def)
next
  case None
  show ?thesis
  proof (cases "target e")
    case no_target: None
    with None show ?thesis by (simp add: onDroppableElementChange_def)
  next
    case (Some t)
    with None show ?thesis
      by (cases t; cases "target_files t")
         (simp_all add: onDroppableElementChange_def array_from_def)
  qed
qed

lemma drop_throws:
  "throws (onElementDrop this e) =
     throws (onDroppableElementChange
       (this\<lparr>element := classList_remove (dragOverClass this) (element this)\<rparr>)
       (stopPropagation (preventDefault e)))"
  by (simp add: onElementDrop_def Let_def split: result.splits)

lemma input_change_throws:
  "throws (onVirtualInputElementChange this e) = throws (onDroppableElementChange this e)"
  by (simp add: onVirtualInputElementChange_def split: result.splits)

text \<open>Registration, seen as a fold over the dictionary.\<close>

lemma register_eq:
  "registerElementEventsWithDictionary el dict =
     (fold (\<lambda>(n, h). addEventListener n (Bound h)) dict el,
      map (\<lambda>(n, h). (n, Method h)) dict)"
  by (induction dict arbitrary: el) (simp_all add: Let_def split: prod.splits)

lemma addEventListener_more:
  "html_element.more (addEventListener n cb el) = html_element.more el"
  "classList (addEventListener n cb el) = classList el"
  by (simp_all add: addEventListener_def)

lemma fold_add_more:
  "html_element.more (fold (\<lambda>(n, h). addEventListener n (Bound h)) dict el) =
     html_element.more el"
  "classList (fold (\<lambda>(n, h). addEventListener n (Bound h)) dict el) = classList el"
  by (induction dict arbitrary: el) (simp_all add: addEventListener_more split: prod.splits)

lemma register_more:
  "html_element.more (fst (registerElementEventsWithDictionary el dict)) = html_element.more el"
  "classList (fst (registerElementEventsWithDictionary el dict)) = classList el"
  by (simp_all add: register_eq fold_add_more)

lemma register_element_frame:
  "latestDroppedFiles (registerElementEvents this) = latestDroppedFiles this"
  "filesWereDroppedEvent (registerElementEvents this) = filesWereDroppedEvent this"
  "isClickable (registerElementEvents this) = isClickable this"
  "appendStatusClasses (registerElementEvents this) = appendStatusClasses this"
  "virtualInputElement (registerElementEvents this) = virtualInputElement this"
  by (simp_all add: registerElementEvents_def split: prod.splits)

lemma register_input_frame:
  "latestDroppedFiles (registerVirtualInputElementEvents this) = latestDroppedFiles this"
  "filesWereDroppedEvent (registerVirtualInputElementEvents this) = filesWereDroppedEvent this"
  "isClickable (registerVirtualInputElementEvents this) = isClickable this"
  "appendStatusClasses (registerVirtualInputElementEvents this) = appendStatusClasses this"
  by (simp_all add: registerVirtualInputElementEvents_def split: prod.splits)

lemma register_input_attributes:
  "attributes (virtualInputElement (registerVirtualInputElementEvents this)) =
     attributes (virtualInputElement this)"
proof -
  have "attributes (fst (registerElementEventsWithDictionary el dict)) = attributes el"
    for el :: input_element and dict
    using register_more(1) [of el dict]
    by (metis input_element.select_convs(1) input_element.surjective html_element.select_convs(3))
  then show ?thesis
    by (simp add: registerVirtualInputElementEvents_def split: prod.splits)
      (metis fst_conv)
qed

text \<open>What the constructor leaves in a new instance.\<close>

lemma constructor_Inr:
  assumes "constructor (Some config) = Inr this"
  shows "latestDroppedFiles this = None"
    and "emitted (filesWereDroppedEvent this) = []"
    and "isClickable this = (case config_isClickable config of Some b \<Rightarrow> b | None \<Rightarrow> True)"
    and "appendStatusClasses this =
           (case config_appendStatusClasses config of Some b \<Rightarrow> b | None \<Rightarrow> True)"
    and "attributes (virtualInputElement this) ''multiple'' =
           Some (boolean_toString
             (case config_acceptsMultipleFiles config of Some b \<Rightarrow> b | None \<Rightarrow> True))"
  using assms
  by (auto simp: constructor_def Let_def register_element_frame register_input_frame
        register_input_attributes
        setIsClickable_def setAcceptsMultipleFiles_def setAppendStatusClasses_def getEvent_def
        setAttribute_def
      split: option.splits)

lemma constructor_None: "constructor None = Inl (Error ''config.element: HTMLElement is required'')"
  by (simp add: constructor_def emptySettings_def)

lemma exampleInstance_eq: "constructor (Some exampleSettings) = Inr exampleInstance"
  by (simp add: exampleInstance_def exampleSettings_def emptySettings_def constructor_def Let_def)

lemma singleFileInstance_eq: "constructor (Some singleFileSettings) = Inr singleFileInstance"
  by (simp add: singleFileInstance_def singleFileSettings_def exampleSettings_def
      emptySettings_def constructor_def Let_def)

lemma exampleInstance_value:
  "exampleInstance =
     \<lparr>dragOverClass = ''dragover'',
      appendStatusClasses = True,
      isClickable = True,
      filesWereDroppedEvent =
        \<lparr>noelEventName = ''drop'',
         noelConfig = \<lparr>replay = True, replayBufferSize = 1\<rparr>,
         noelListeners = [], emitted = []\<rparr>,
      element =
        \<lparr>classList = [''zone''],
         listeners =
           [(''click'', Other 0),
            (''dragover'', Bound OnElementDragOver),
            (''dragleave'', Bound OnElementDragLeave),
            (''drop'', Bound OnElementDrop),
            (''click'', Bound OnElementClick)]\<rparr>,
      elementEventsRemover =
        [(''dragover'', Method OnElementDragOver),
         (''dragleave'', Method OnElementDragLeave),
         (''drop'', Method OnElementDrop),
         (''click'', Method OnElementClick)],
      virtualInputElement =
        \<lparr>classList = [],
         listeners = [(''change'', Bound OnVirtualInputElementChange)],
         attributes = [''type'' \<mapsto> ''file'', ''multiple'' \<mapsto> ''true''],
         styleDisplay = ''none'', clickCalls = 0\<rparr>,
      virtualInputElementEventsRemover = [(''change'', Method OnVirtualInputElementChange)],
      latestDroppedFiles = None\<rparr>"
  by (simp add: exampleInstance_def exampleSettings_def exampleElement_def construct_defs)

lemma exampleInstance_fresh:
  "latestDroppedFiles exampleInstance = None"
  "emitted (filesWereDroppedEvent exampleInstance) = []"
  by (simp_all add: constructor_Inr(1,2) [OF exampleInstance_eq])

lemma afterOneDrop_values:
  "getLatestDroppedFiles afterOneDrop = [File ''a'']"
  "emitted (filesWereDroppedEvent afterOneDrop) = [[File ''a'']]"
  by (simp_all add: afterOneDrop_def dropEvent_def handler_defs Let_def exampleInstance_fresh)

text \<open>Every handler, every dispatch and every operation keeps query and channel in step.\<close>

lemma synced_fields:
  "latestDroppedFiles a = latestDroppedFiles b \<Longrightarrow>
   filesWereDroppedEvent a = filesWereDroppedEvent b \<Longrightarrow> synced a = synced b"
  by (simp add: synced_def getLatestDroppedFiles_def lastEmitted_def)

lemma change_synced: "synced this \<Longrightarrow> synced (final (onDroppableElementChange this e))"
proof (cases "onDroppableElementChange this e")
  case (Returned this')
  then show ?thesis using change_Returned [OF Returned] by (auto simp: setLatestDrop_synced)
next
  case (Threw err this')
  assume "synced this"
  then show ?thesis using change_Threw [OF Threw] Threw by simp
qed

lemma call_synced: "synced this \<Longrightarrow> synced (fst (final (call cb this e)))"
proof (induction cb this e rule: call.induct)
  case (3 this e)
  let ?cleared = "this\<lparr>element := classList_remove (dragOverClass this) (element this)\<rparr>"
  have cleared: "synced ?cleared"
    using 3 synced_fields [of ?cleared this] by simp
  from change_synced [OF cleared, of "stopPropagation (preventDefault e)"] show ?case
    by (cases "onDroppableElementChange ?cleared (stopPropagation (preventDefault e))")
       (simp_all add: onElementDrop_def Let_def)
next
  case (5 this e)
  from change_synced [OF 5, of e] show ?case
    by (cases "onDroppableElementChange this e")
       (simp_all add: onVirtualInputElementChange_def)
qed (simp_all add: onElementDragOver_def onElementDragLeave_def onElementClick_def
       promptForFiles_def Let_def synced_def getLatestDroppedFiles_def lastEmitted_def)

lemma invoke_synced: "synced this \<Longrightarrow> synced (fst (invoke cbs this e errs))"
proof (induction cbs arbitrary: this e errs)
  case Nil
  then show ?case by simp
next
  case (Cons cb cbs)
  from call_synced [OF Cons.prems, of cb e] show ?case
    by (cases "call cb this e") (auto intro: Cons.IH)
qed

lemma step_synced: "synced this \<Longrightarrow> synced (step x this)"
proof (cases x)
  case (FireOnElement eventName e)
  assume "synced this"
  then show ?thesis
    by (simp add: FireOnElement dispatchOnElement_def invoke_synced)
next
  case (FireOnVirtualInput eventName e)
  assume "synced this"
  then show ?thesis
    by (simp add: FireOnVirtualInput dispatchOnVirtualInput_def invoke_synced)
qed (simp_all add: synced_def getLatestDroppedFiles_def lastEmitted_def onFilesDropped_def on_def
       cleanUp_def Let_def promptForFiles_def setIsClickable_def setAcceptsMultipleFiles_def
       setAppendStatusClasses_def)

lemma run_synced: "synced this \<Longrightarrow> synced (run xs this)"
  by (induction xs arbitrary: this) (simp_all add: step_synced)

lemma constructor_synced: "constructor config = Inr this \<Longrightarrow> synced this"
proof (cases config)
  case None
  assume "constructor config = Inr this"
  with None show ?thesis by (simp add: constructor_None)
next
  case (Some c)
  assume "constructor config = Inr this"
  with Some constructor_Inr(1,2) [of c this] show ?thesis
    by (simp add: synced_def getLatestDroppedFiles_def lastEmitted_def)
qed

lemma exampleOperations_value:
  "getLatestDroppedFiles (run exampleOperations exampleInstance) = [File ''c'']"
  by (simp add: exampleOperations_def exampleInstance_value dropEvent_def changeEvent_def
      bareEvent_def handler_defs dispatchOnElement_def dispatchOnVirtualInput_def listenersFor_def
      cleanUp_def removeEventListener_def setAcceptsMultipleFiles_def setAttribute_def
      boolean_toString_def Let_def)

subsection \<open>Processing a delivered file list\<close>

text \<open>
  C1. Whatever the state of the instance: when a drop event carries a drag payload
  with the file list \<open>F\<close>, the drop handler returns, \<open>getLatestDroppedFiles\<close> then
  gives exactly \<open>F\<close>, and the notifications emitted are those from before followed by
  one carrying \<open>F\<close>. The same holds for the change handler of the hidden input when
  the event has no drag payload and its target holds the file list \<open>F\<close>. Nothing is
  dropped from \<open>F\<close>, added to it or reordered.
\<close>

theorem delivered_files_stored_and_emitted_once:
  "(dataTransfer e = Some (DataTransfer (Some F)) \<longrightarrow>
      \<not> throws (onElementDrop this e) \<and>
      getLatestDroppedFiles (fst (final (onElementDrop this e))) = F \<and>
      emitted (filesWereDroppedEvent (fst (final (onElementDrop this e)))) =
        emitted (filesWereDroppedEvent this) @ [F]) \<and>
   (dataTransfer e = None \<and> target e = Some (EventTarget (Some F)) \<longrightarrow>
      \<not> throws (onVirtualInputElementChange this e) \<and>
      getLatestDroppedFiles (fst (final (onVirtualInputElementChange this e))) = F \<and>
      emitted (filesWereDroppedEvent (fst (final (onVirtualInputElementChange this e)))) =
        emitted (filesWereDroppedEvent this) @ [F])"
  by (simp add: handler_defs Let_def)

theorem delivered_files_witness:
  "dataTransfer (dropEvent [File ''b'', File ''a'', File ''b'']) =
     Some (DataTransfer (Some [File ''b'', File ''a'', File ''b''])) \<and>
   getLatestDroppedFiles
     (fst (final (onElementDrop exampleInstance (dropEvent [File ''b'', File ''a'', File ''b''])))) =
     [File ''b'', File ''a'', File ''b''] \<and>
   emitted (filesWereDroppedEvent
     (fst (final (onElementDrop exampleInstance (dropEvent [File ''b'', File ''a'', File ''b'']))))) =
     [[File ''b'', File ''a'', File ''b'']] \<and>
   dataTransfer (changeEvent [File ''c'']) = None \<and>
   target (changeEvent [File ''c'']) = Some (EventTarget (Some [File ''c''])) \<and>
   getLatestDroppedFiles
     (fst (final (onVirtualInputElementChange afterOneDrop (changeEvent [File ''c''])))) =
     [File ''c''] \<and>
   emitted (filesWereDroppedEvent
     (fst (final (onVirtualInputElementChange afterOneDrop (changeEvent [File ''c'']))))) =
     [[File ''a''], [File ''c'']]"
proof -
  have d: "dataTransfer (dropEvent [File ''b'', File ''a'', File ''b'']) =
      Some (DataTransfer (Some [File ''b'', File ''a'', File ''b'']))"
    by (simp add: dropEvent_def)
  have c: "dataTransfer (changeEvent [File ''c'']) = None \<and>
      target (changeEvent [File ''c'']) = Some (EventTarget (Some [File ''c'']))"
    by (simp add: changeEvent_def)
  from d c
    delivered_files_stored_and_emitted_once
      [of "dropEvent [File ''b'', File ''a'', File ''b'']" "[File ''b'', File ''a'', File ''b'']"
          exampleInstance]
    delivered_files_stored_and_emitted_once
      [of "changeEvent [File ''c'']" "[File ''c'']" afterOneDrop]
  show ?thesis
    by (simp add: exampleInstance_fresh afterOneDrop_values)
qed

text \<open>
  C2. In every state an instance reaches from its construction by calls of its public
  methods and by events fired on the host element and on the hidden input,
  \<open>getLatestDroppedFiles\<close> returns the payload of the notification emitted last, and
  the empty list when none was emitted. Every single operation preserves this, from
  any state in which it holds.
\<close>

theorem latest_files_equal_last_emitted:
  "(constructor config = Inr this \<longrightarrow>
      getLatestDroppedFiles (run ops this) = lastEmitted (run ops this)) \<and>
   (getLatestDroppedFiles s = lastEmitted s \<longrightarrow>
      getLatestDroppedFiles (step x s) = lastEmitted (step x s))"
proof (intro conjI impI)
  assume "constructor config = Inr this"
  from run_synced [OF constructor_synced [OF this], of ops]
  show "getLatestDroppedFiles (run ops this) = lastEmitted (run ops this)"
    by (simp add: synced_def)
next
  assume "getLatestDroppedFiles s = lastEmitted s"
  then have "synced s" by (simp add: synced_def)
  from step_synced [OF this, of x]
  show "getLatestDroppedFiles (step x s) = lastEmitted (step x s)"
    by (simp add: synced_def)
qed

theorem latest_files_equal_last_emitted_witness:
  "constructor (Some exampleSettings) = Inr exampleInstance \<and>
   getLatestDroppedFiles (run exampleOperations exampleInstance) = [File ''c''] \<and>
   lastEmitted (run exampleOperations exampleInstance) = [File ''c''] \<and>
   getLatestDroppedFiles afterOneDrop = lastEmitted afterOneDrop \<and>
   getLatestDroppedFiles (step (FireOnElement ''drop'' (bareEvent None)) afterOneDrop) =
     lastEmitted (step (FireOnElement ''drop'' (bareEvent None)) afterOneDrop)"
proof -
  have a: "getLatestDroppedFiles afterOneDrop = lastEmitted afterOneDrop"
    by (simp add: afterOneDrop_values lastEmitted_def)
  from a exampleInstance_eq exampleOperations_value
    latest_files_equal_last_emitted
      [of "Some exampleSettings" exampleInstance exampleOperations afterOneDrop
          "FireOnElement ''drop'' (bareEvent None)"]
  show ?thesis by simp
qed

subsection \<open>Where the files come from, and when handling fails\<close>

text \<open>
  C3. On the path shared by the drop and the change handler: when the event has a drag
  payload with a file collection, the list processed is that collection; when it has
  no drag payload and its target has a file collection, the list processed is the
  target's. The handler throws exactly when the event has a drag payload without a file
  collection, whatever its target holds, or has no drag payload and no target file
  collection (no target at all, or a target without files). The drop handler and the
  change handler throw under exactly the same condition.
\<close>

theorem files_source_and_throw_condition:
  "(\<forall>fs. dataTransfer e = Some (DataTransfer (Some fs)) \<longrightarrow>
      onDroppableElementChange this e = Returned (setLatestDrop fs this)) \<and>
   (\<forall>fs. dataTransfer e = None \<and> target e = Some (EventTarget (Some fs)) \<longrightarrow>
      onDroppableElementChange this e = Returned (setLatestDrop fs this)) \<and>
   throws (onDroppableElementChange this e) =
     (dataTransfer e = Some (DataTransfer None) \<or>
      dataTransfer e = None \<and> (target e = None \<or> target e = Some (EventTarget None))) \<and>
   throws (onElementDrop this e) =
     (dataTransfer e = Some (DataTransfer None) \<or>
      dataTransfer e = None \<and> (target e = None \<or> target e = Some (EventTarget None))) \<and>
   throws (onVirtualInputElementChange this e) =
     (dataTransfer e = Some (DataTransfer None) \<or>
      dataTransfer e = None \<and> (target e = None \<or> target e = Some (EventTarget None)))"
proof -
  have a: "onDroppableElementChange this e = Returned (setLatestDrop fs this)"
    if "dataTransfer e = Some (DataTransfer (Some fs))" for fs
    using that by (simp add: onDroppableElementChange_def array_from_def)
  have b: "onDroppableElementChange this e = Returned (setLatestDrop fs this)"
    if "dataTransfer e = None \<and> target e = Some (EventTarget (Some fs))" for fs
    using that by (simp add: onDroppableElementChange_def array_from_def)
  have d: "throws (onElementDrop this e) =
     (dataTransfer e = Some (DataTransfer None) \<or>
      dataTransfer e = None \<and> (target e = None \<or> target e = Some (EventTarget None)))"
    by (simp add: drop_throws change_throws preventDefault_def stopPropagation_def)
  have c: "throws (onVirtualInputElementChange this e) =
     (dataTransfer e = Some (DataTransfer None) \<or>
      dataTransfer e = None \<and> (target e = None \<or> target e = Some (EventTarget None)))"
    by (simp add: input_change_throws change_throws)
  from a b c d change_throws [of this e] show ?thesis by blast
qed

theorem files_source_and_throw_condition_witness:
  "onDroppableElementChange exampleInstance (dropEvent [File ''a'', File ''b'']) =
     Returned (setLatestDrop [File ''a'', File ''b''] exampleInstance) \<and>
   onDroppableElementChange exampleInstance (changeEvent [File ''c'']) =
     Returned (setLatestDrop [File ''c''] exampleInstance) \<and>
   throws (onDroppableElementChange exampleInstance (bareEvent None)) \<and>
   throws (onElementDrop exampleInstance (bareEvent (Some (EventTarget None)))) \<and>
   throws (onVirtualInputElementChange exampleInstance payloadWithoutFilesEvent) \<and>
   \<not> throws (onElementDrop exampleInstance (dropEvent [])) \<and>
   \<not> throws (onVirtualInputElementChange exampleInstance (changeEvent []))"
  using
    files_source_and_throw_condition [of "dropEvent [File ''a'', File ''b'']" exampleInstance]
    files_source_and_throw_condition [of "changeEvent [File ''c'']" exampleInstance]
    files_source_and_throw_condition [of "bareEvent None" exampleInstance]
    files_source_and_throw_condition [of "bareEvent (Some (EventTarget None))" exampleInstance]
    files_source_and_throw_condition [of payloadWithoutFilesEvent exampleInstance]
    files_source_and_throw_condition [of "dropEvent []" exampleInstance]
    files_source_and_throw_condition [of "changeEvent []" exampleInstance]
  by (simp add: dropEvent_def changeEvent_def bareEvent_def payloadWithoutFilesEvent_def)

text \<open>
  The statement that the handler throws exactly when neither the drag payload nor the
  target has a file collection fails: on \<open>payloadWithoutFilesEvent\<close> the target has a
  file collection, and the shared path, the drop handler and the change handler all
  throw, with nothing stored and nothing emitted.
\<close>

theorem payload_without_files_counterexample:
  "target payloadWithoutFilesEvent = Some (EventTarget (Some [File ''a''])) \<and>
   onDroppableElementChange exampleInstance payloadWithoutFilesEvent =
     Threw (TypeError ''undefined is not iterable'') exampleInstance \<and>
   throws (onElementDrop exampleInstance payloadWithoutFilesEvent) \<and>
   throws (onVirtualInputElementChange exampleInstance payloadWithoutFilesEvent) \<and>
   \<not> (throws (onDroppableElementChange exampleInstance payloadWithoutFilesEvent) =
        ((dataTransfer payloadWithoutFilesEvent = None \<or>
          dataTransfer payloadWithoutFilesEvent = Some (DataTransfer None)) \<and>
         (target payloadWithoutFilesEvent = None \<or>
          target payloadWithoutFilesEvent = Some (EventTarget None))))"
  by (simp add: payloadWithoutFilesEvent_def handler_defs Let_def)

text \<open>
  C4. When the drop handler or the change handler of the hidden input throws, the
  notifications emitted are the same as before the event and \<open>getLatestDroppedFiles\<close>
  returns what it returned before: a failed drop or selection emits nothing and leaves
  the stored list alone.
\<close>

theorem failed_handling_emits_nothing_and_keeps_latest:
  "(throws (onElementDrop this e) \<longrightarrow>
      emitted (filesWereDroppedEvent (fst (final (onElementDrop this e)))) =
        emitted (filesWereDroppedEvent this) \<and>
      getLatestDroppedFiles (fst (final (onElementDrop this e))) = getLatestDroppedFiles this) \<and>
   (throws (onVirtualInputElementChange this e) \<longrightarrow>
      emitted (filesWereDroppedEvent (fst (final (onVirtualInputElementChange this e)))) =
        emitted (filesWereDroppedEvent this) \<and>
      getLatestDroppedFiles (fst (final (onVirtualInputElementChange this e))) =
        getLatestDroppedFiles this)"
proof -
  have drop: "emitted (filesWereDroppedEvent this') = emitted (filesWereDroppedEvent this) \<and>
      getLatestDroppedFiles this' = getLatestDroppedFiles this"
    if "onElementDrop this e = Threw err (this', e')" for err this' e'
  proof -
    from that have
      "this' = this\<lparr>element := classList_remove (dragOverClass this) (element this)\<rparr>"
      by (auto simp: onElementDrop_def Let_def split: result.splits dest: change_Threw)
    then show ?thesis by (simp add: getLatestDroppedFiles_def)
  qed
  have change: "this' = this"
    if "onVirtualInputElementChange this e = Threw err (this', e')" for err this' e'
    using that
    by (auto simp: onVirtualInputElementChange_def split: result.splits dest: change_Threw)
  show ?thesis
  proof (intro conjI impI)
    assume "throws (onElementDrop this e)"
    then obtain err this' e' where t: "onElementDrop this e = Threw err (this', e')"
      by (cases "onElementDrop this e") auto
    from drop [OF t] t
    show "emitted (filesWereDroppedEvent (fst (final (onElementDrop this e)))) =
        emitted (filesWereDroppedEvent this)"
      and "getLatestDroppedFiles (fst (final (onElementDrop this e))) = getLatestDroppedFiles this"
      by simp_all
  next
    assume "throws (onVirtualInputElementChange this e)"
    then obtain err this' e' where t: "onVirtualInputElementChange this e = Threw err (this', e')"
      by (cases "onVirtualInputElementChange this e") auto
    from change [OF t] t
    show "emitted (filesWereDroppedEvent (fst (final (onVirtualInputElementChange this e)))) =
        emitted (filesWereDroppedEvent this)"
      and "getLatestDroppedFiles (fst (final (onVirtualInputElementChange this e))) =
        getLatestDroppedFiles this"
      by simp_all
  qed
qed

theorem failed_handling_witness:
  "throws (onElementDrop afterOneDrop (bareEvent (Some (EventTarget None)))) \<and>
   emitted (filesWereDroppedEvent
     (fst (final (onElementDrop afterOneDrop (bareEvent (Some (EventTarget None))))))) =
     [[File ''a'']] \<and>
   getLatestDroppedFiles
     (fst (final (onElementDrop afterOneDrop (bareEvent (Some (EventTarget None)))))) =
     [File ''a''] \<and>
   throws (onVirtualInputElementChange afterOneDrop (bareEvent None)) \<and>
   emitted (filesWereDroppedEvent
     (fst (final (onVirtualInputElementChange afterOneDrop (bareEvent None))))) =
     [[File ''a'']] \<and>
   getLatestDroppedFiles
     (fst (final (onVirtualInputElementChange afterOneDrop (bareEvent None)))) = [File ''a'']"
proof -
  have t1: "throws (onElementDrop afterOneDrop (bareEvent (Some (EventTarget None))))"
    by (simp add: drop_throws change_throws bareEvent_def preventDefault_def stopPropagation_def)
  have t2: "throws (onVirtualInputElementChange afterOneDrop (bareEvent None))"
    by (simp add: input_change_throws change_throws bareEvent_def)
  from t1 t2
    failed_handling_emits_nothing_and_keeps_latest
      [of afterOneDrop "bareEvent (Some (EventTarget None))"]
    failed_handling_emits_nothing_and_keeps_latest [of afterOneDrop "bareEvent None"]
  show ?thesis by (simp add: afterOneDrop_values)
qed

subsection \<open>The status class\<close>

text \<open>
  The three handlers by themselves, whatever the state of the instance and the value of
  its flags: drag-over leaves the status class in the class list of the host element,
  drag-leave and drop leave it out, the drop also when it throws, and each calls
  \<open>preventDefault\<close>.
\<close>

lemma drag_handlers_status_class:
  "\<not> throws (onElementDragOver this e) \<and>
   dragOverClass this \<in> set (classList (element (fst (final (onElementDragOver this e))))) \<and>
   preventDefaultCalled (snd (final (onElementDragOver this e))) \<and>
   \<not> throws (onElementDragLeave this e) \<and>
   dragOverClass this \<notin> set (classList (element (fst (final (onElementDragLeave this e))))) \<and>
   preventDefaultCalled (snd (final (onElementDragLeave this e))) \<and>
   dragOverClass this \<notin> set (classList (element (fst (final (onElementDrop this e))))) \<and>
   preventDefaultCalled (snd (final (onElementDrop this e)))"
proof -
  let ?cleared = "this\<lparr>element := classList_remove (dragOverClass this) (element this)\<rparr>"
  let ?e = "stopPropagation (preventDefault e)"
  have over:
    "dragOverClass this \<in> set (classList (element (fst (final (onElementDragOver this e)))))"
    by (simp add: onElementDragOver_def Let_def classList_add_def)
  have leave:
    "dragOverClass this \<notin> set (classList (element (fst (final (onElementDragLeave this e)))))"
    by (simp add: onElementDragLeave_def Let_def classList_remove_def)
  have elem: "element (final (onDroppableElementChange t ev)) = element t" for t ev
    by (auto simp: onDroppableElementChange_def array_from_def setLatestDrop_def
          emitFilesWereDropped_def split: option.splits sum.splits)
  have drop_el: "element (fst (final (onElementDrop this e))) =
      classList_remove (dragOverClass this) (element this)"
    using elem [of ?cleared ?e]
    by (cases "onDroppableElementChange ?cleared ?e") (simp_all add: onElementDrop_def Let_def)
  have drop:
    "dragOverClass this \<notin> set (classList (element (fst (final (onElementDrop this e)))))"
    by (simp add: drop_el classList_remove_def)
  have drop_pd: "preventDefaultCalled (snd (final (onElementDrop this e)))"
    by (cases "onDroppableElementChange ?cleared ?e")
       (simp_all add: onElementDrop_def Let_def preventDefault_def stopPropagation_def)
  have rest: "\<not> throws (onElementDragOver this e)"
    "preventDefaultCalled (snd (final (onElementDragOver this e)))"
    "\<not> throws (onElementDragLeave this e)"
    "preventDefaultCalled (snd (final (onElementDragLeave this e)))"
    by (simp_all add: onElementDragOver_def onElementDragLeave_def Let_def preventDefault_def
        stopPropagation_def)
  from over leave drop drop_pd rest show ?thesis by simp
qed

text \<open>Listeners that are no bound handlers leave the instance and the event's files alone.\<close>

lemma call_unbound:
  "\<not> isBound cb \<Longrightarrow>
     fst (final (call cb this e)) = this \<and>
     dataTransfer (snd (final (call cb this e))) = dataTransfer e \<and>
     target (snd (final (call cb this e))) = target e"
  by (induction cb this e rule: call.induct)
     (simp_all add: preventDefault_def stopPropagation_def)

lemma invoke_append:
  "invoke (xs @ ys) this e errs =
     (case invoke xs this e errs of (this', e', errs') \<Rightarrow> invoke ys this' e' errs')"
  by (induction xs arbitrary: this e errs) (auto split: result.splits)

lemma invoke_single:
  "fst (invoke [cb] this e errs) = fst (final (call cb this e))"
  "fst (snd (invoke [cb] this e errs)) = snd (final (call cb this e))"
  by (cases "call cb this e"; cases "final (call cb this e)"; simp)+

lemma invoke_unbound:
  "\<forall>cb \<in> set cbs. \<not> isBound cb \<Longrightarrow>
     fst (invoke cbs this e errs) = this \<and>
     dataTransfer (fst (snd (invoke cbs this e errs))) = dataTransfer e \<and>
     target (fst (snd (invoke cbs this e errs))) = target e"
proof (induction cbs arbitrary: e errs)
  case Nil
  then show ?case by simp
next
  case (Cons cb cbs)
  then have nb: "\<not> isBound cb" and rest: "\<forall>cb \<in> set cbs. \<not> isBound cb" by simp_all
  show ?case
  proof (cases "call cb this e")
    case (Returned p)
    with call_unbound [OF nb, of this e] Cons.IH [OF rest, of "snd p" errs] show ?thesis
      by (cases p) simp
  next
    case (Threw err p)
    with call_unbound [OF nb, of this e] Cons.IH [OF rest, of "snd p" "errs @ [err]"]
    show ?thesis by (cases p) simp
  qed
qed

text \<open>No handler, no dispatch and no operation changes the wiring of the host element.\<close>

lemma change_wired_fields:
  "dragOverClass (final (onDroppableElementChange this e)) = dragOverClass this"
  "elementEventsRemover (final (onDroppableElementChange this e)) = elementEventsRemover this"
  "element (final (onDroppableElementChange this e)) = element this"
  by (auto simp: onDroppableElementChange_def array_from_def setLatestDrop_def
        emitFilesWereDropped_def split: option.splits sum.splits)

lemma call_wired_fields:
  "dragOverClass (fst (final (call cb this e))) = dragOverClass this"
  "elementEventsRemover (fst (final (call cb this e))) = elementEventsRemover this"
  "listeners (element (fst (final (call cb this e)))) = listeners (element this)"
proof (induction cb this e rule: call.induct)
  case (3 this e)
  let ?cleared = "this\<lparr>element := classList_remove (dragOverClass this) (element this)\<rparr>"
  let ?e = "stopPropagation (preventDefault e)"
  {
    case 1
    from change_wired_fields(1) [of ?cleared ?e] show ?case
      by (cases "onDroppableElementChange ?cleared ?e") (simp_all add: onElementDrop_def Let_def)
  next
    case 2
    from change_wired_fields(2) [of ?cleared ?e] show ?case
      by (cases "onDroppableElementChange ?cleared ?e") (simp_all add: onElementDrop_def Let_def)
  next
    case 3
    from change_wired_fields(3) [of ?cleared ?e] show ?case
      by (cases "onDroppableElementChange ?cleared ?e")
         (simp_all add: onElementDrop_def Let_def classList_remove_def)
  }
next
  case (5 this e)
  {
    case 1
    from change_wired_fields(1) [of this e] show ?case
      by (cases "onDroppableElementChange this e") (simp_all add: onVirtualInputElementChange_def)
  next
    case 2
    from change_wired_fields(2) [of this e] show ?case
      by (cases "onDroppableElementChange this e") (simp_all add: onVirtualInputElementChange_def)
  next
    case 3
    from change_wired_fields(3) [of this e] show ?case
      by (cases "onDroppableElementChange this e") (simp_all add: onVirtualInputElementChange_def)
  }
qed (simp_all add: onElementDragOver_def onElementDragLeave_def onElementClick_def
       promptForFiles_def Let_def classList_add_def classList_remove_def)

lemma invoke_wired_fields:
  "dragOverClass (fst (invoke cbs this e errs)) = dragOverClass this \<and>
   elementEventsRemover (fst (invoke cbs this e errs)) = elementEventsRemover this \<and>
   listeners (element (fst (invoke cbs this e errs))) = listeners (element this)"
proof (induction cbs arbitrary: this e errs)
  case Nil
  then show ?case by simp
next
  case (Cons cb cbs)
  show ?case
  proof (cases "call cb this e")
    case (Returned p)
    with call_wired_fields [of cb this e] Cons.IH [of "fst p" "snd p" errs] show ?thesis
      by (cases p) simp
  next
    case (Threw err p)
    with call_wired_fields [of cb this e] Cons.IH [of "fst p" "snd p" "errs @ [err]"]
    show ?thesis by (cases p) simp
  qed
qed

lemma runEventRemovers_pre:
  assumes "\<forall>r \<in> set rs. \<not> isBound (snd r)"
    and "\<forall>l \<in> set pre. \<not> isBound (snd l)"
    and "\<forall>l \<in> set own. isBound (snd l)"
    and "listeners el = pre @ own"
  shows "\<exists>pre'. (\<forall>l \<in> set pre'. \<not> isBound (snd l)) \<and>
           listeners (runEventRemovers rs el) = pre' @ own"
  using assms
proof (induction rs arbitrary: el pre)
  case Nil
  then show ?case by auto
next
  case (Cons r rs)
  obtain n cb where r: "r = (n, cb)" by (cases r)
  from Cons.prems(1) r have nb: "\<not> isBound cb" by simp
  with Cons.prems(3) have "(n, cb) \<notin> set own" by auto
  then have "remove1 (n, cb) (pre @ own) = remove1 (n, cb) pre @ own"
    by (simp add: remove1_append remove1_idem)
  then have l: "listeners (removeEventListener n cb el) = remove1 (n, cb) pre @ own"
    using Cons.prems(4) by (simp add: removeEventListener_def)
  have p: "\<forall>l \<in> set (remove1 (n, cb) pre). \<not> isBound (snd l)"
    using Cons.prems(2) by (meson notin_set_remove1)
  from Cons.IH [OF _ p Cons.prems(3) l] Cons.prems(1) show ?case
    by (simp add: r)
qed

lemma boundListeners_bound: "\<forall>l \<in> set (boundListeners dict). isBound (snd l)"
  by (auto simp: boundListeners_def)

lemma step_wired: "wired this \<Longrightarrow> wired (step x this)"
proof (cases x)
  case CleanUp
  assume w: "wired this"
  then obtain pre where pre: "\<forall>l \<in> set pre. \<not> isBound (snd l)"
    and l: "listeners (element this) = pre @ boundListeners getElementEventsDictionary"
    and r: "\<forall>r \<in> set (elementEventsRemover this). \<not> isBound (snd r)"
    by (auto simp: wired_def)
  from runEventRemovers_pre [OF r pre boundListeners_bound l] w show ?thesis
    by (simp add: CleanUp cleanUp_def Let_def wired_def)
next
  case (FireOnElement eventName e)
  assume "wired this"
  with invoke_wired_fields [of "listenersFor eventName (element this)" this e "[]"]
  show ?thesis
    by (simp add: FireOnElement dispatchOnElement_def wired_def)
next
  case (FireOnVirtualInput eventName e)
  assume "wired this"
  with invoke_wired_fields [of "listenersFor eventName (virtualInputElement this)" this e "[]"]
  show ?thesis
    by (simp add: FireOnVirtualInput dispatchOnVirtualInput_def wired_def)
qed (simp_all add: wired_def onFilesDropped_def promptForFiles_def setIsClickable_def
       setAcceptsMultipleFiles_def setAppendStatusClasses_def)

lemma run_wired: "wired this \<Longrightarrow> wired (run xs this)"
  by (induction xs arbitrary: this) (simp_all add: step_wired)

lemma constructor_wired:
  assumes c: "constructor (Some config) = Inr this"
    and el: "config_element config = Some el"
    and fresh: "\<forall>l \<in> set (listeners el). \<not> isBound (snd l)"
  shows "wired this"
proof -
  from fresh have notin: "(n, Bound h) \<notin> set (listeners el)" for n h
    by force
  from c el obtain this0 where
    this_eq: "this = registerVirtualInputElementEvents (registerElementEvents this0)"
    and el0: "element this0 = el"
    and doc: "dragOverClass this0 = ''dragover''"
    by (auto simp: constructor_def Let_def setIsClickable_def setAcceptsMultipleFiles_def
        setAppendStatusClasses_def split: option.splits)
  have e: "element this =
      fst (registerElementEventsWithDictionary el getElementEventsDictionary)"
    and r: "elementEventsRemover this =
      snd (registerElementEventsWithDictionary el getElementEventsDictionary)"
    and d: "dragOverClass this = ''dragover''"
    by (simp_all add: this_eq el0 doc registerVirtualInputElementEvents_def
        registerElementEvents_def split: prod.splits)
  have l: "listeners (element this) = listeners el @ boundListeners getElementEventsDictionary"
    by (simp add: e register_eq getElementEventsDictionary_def boundListeners_def
        addEventListener_def notin)
  have rb: "\<forall>r \<in> set (elementEventsRemover this). \<not> isBound (snd r)"
    by (simp add: r register_eq getElementEventsDictionary_def)
  from d rb fresh l show ?thesis
    unfolding wired_def by blast
qed

text \<open>
  An event fired on a wired host element comes down to the one bound handler that the
  dictionary has for its name, called on the same instance with the event's files.
\<close>

lemma dispatch_wired:
  assumes w: "wired this"
    and own: "listenersFor n
                \<lparr>classList = [], listeners = boundListeners getElementEventsDictionary\<rparr> =
              [Bound h]"
  shows "\<exists>e' errs. dataTransfer e' = dataTransfer e \<and> target e' = target e \<and>
           dispatchOnElement n e this = invoke [Bound h] this e' errs"
proof -
  from w obtain pre where pre: "\<forall>l \<in> set pre. \<not> isBound (snd l)"
    and l: "listeners (element this) = pre @ boundListeners getElementEventsDictionary"
    by (auto simp: wired_def)
  let ?pre = "map snd (filter (\<lambda>l. fst l = n) pre)"
  have split: "listenersFor n (element this) = ?pre @ [Bound h]"
    using own by (simp add: listenersFor_def l)
  have nb: "\<forall>cb \<in> set ?pre. \<not> isBound cb"
    using pre by auto
  obtain t e' errs where i: "invoke ?pre this e [] = (t, e', errs)"
    by (cases "invoke ?pre this e []")
  with invoke_unbound [OF nb, of this e "[]"] have
    "t = this" "dataTransfer e' = dataTransfer e" "target e' = target e"
    by simp_all
  with i show ?thesis
    by (auto simp: dispatchOnElement_def split invoke_append)
qed

text \<open>
  C6. For every instance the constructor returns for a host element (whose listener
  table, as handed in, cannot hold the functions the constructor is about to bind),
  in every state the instance reaches by calls of its public methods and by events,
  \<open>cleanUp\<close> included, and whatever its flags: a dragover event fired on the host
  element leaves the class \<open>dragover\<close> in the element's class list; a dragleave event
  leaves it out; a drop event leaves it out, whether the drop is processed or fails;
  and \<open>preventDefault\<close> has been called on each of the three events.
\<close>

theorem drag_events_toggle_status_class:
  assumes "constructor (Some config) = Inr this"
    and "config_element config = Some el"
    and "\<forall>l \<in> set (listeners el). \<not> isBound (snd l)"
  shows "''dragover'' \<in>
           set (classList (element (fst (dispatchOnElement ''dragover'' e (run ops this))))) \<and>
         preventDefaultCalled (fst (snd (dispatchOnElement ''dragover'' e (run ops this)))) \<and>
         ''dragover'' \<notin>
           set (classList (element (fst (dispatchOnElement ''dragleave'' e (run ops this))))) \<and>
         preventDefaultCalled (fst (snd (dispatchOnElement ''dragleave'' e (run ops this)))) \<and>
         ''dragover'' \<notin>
           set (classList (element (fst (dispatchOnElement ''drop'' e (run ops this))))) \<and>
         preventDefaultCalled (fst (snd (dispatchOnElement ''drop'' e (run ops this))))"
proof -
  let ?t = "run ops this"
  have w: "wired ?t"
    by (rule run_wired [OF constructor_wired [OF assms]])
  then have c: "dragOverClass ?t = ''dragover''"
    by (simp add: wired_def)
  obtain e1 errs1 where
    over: "dispatchOnElement ''dragover'' e ?t = invoke [Bound OnElementDragOver] ?t e1 errs1"
    using dispatch_wired [OF w, of "''dragover''" OnElementDragOver e]
    by (auto simp: listenersFor_def boundListeners_def getElementEventsDictionary_def)
  obtain e2 errs2 where
    leave: "dispatchOnElement ''dragleave'' e ?t = invoke [Bound OnElementDragLeave] ?t e2 errs2"
    using dispatch_wired [OF w, of "''dragleave''" OnElementDragLeave e]
    by (auto simp: listenersFor_def boundListeners_def getElementEventsDictionary_def)
  obtain e3 errs3 where
    drop: "dispatchOnElement ''drop'' e ?t = invoke [Bound OnElementDrop] ?t e3 errs3"
    using dispatch_wired [OF w, of "''drop''" OnElementDrop e]
    by (auto simp: listenersFor_def boundListeners_def getElementEventsDictionary_def)
  from drag_handlers_status_class [of ?t e1]
    drag_handlers_status_class [of ?t e2]
    drag_handlers_status_class [of ?t e3]
  show ?thesis
    unfolding over leave drop invoke_single call.simps
    by (simp add: c)
qed

theorem drag_events_witness:
  "constructor (Some exampleSettings) = Inr exampleInstance \<and>
   config_element exampleSettings = Some exampleElement \<and>
   listeners exampleElement = [(''click'', Other 0)] \<and>
   classList (element (fst (dispatchOnElement ''dragover'' (dropEvent []) exampleInstance))) =
     [''zone'', ''dragover''] \<and>
   ''dragover'' \<in> set (classList (element (fst (dispatchOnElement ''dragover''
      (dropEvent [File ''a'']) (run exampleOperations exampleInstance))))) \<and>
   preventDefaultCalled (fst (snd (dispatchOnElement ''dragover''
      (dropEvent [File ''a'']) (run exampleOperations exampleInstance)))) \<and>
   ''dragover'' \<notin> set (classList (element (fst (dispatchOnElement ''dragleave''
      (dropEvent [File ''a'']) (run exampleOperations exampleInstance))))) \<and>
   preventDefaultCalled (fst (snd (dispatchOnElement ''dragleave''
      (dropEvent [File ''a'']) (run exampleOperations exampleInstance)))) \<and>
   ''dragover'' \<notin> set (classList (element (fst (dispatchOnElement ''drop''
      (dropEvent [File ''a'']) (run exampleOperations exampleInstance))))) \<and>
   preventDefaultCalled (fst (snd (dispatchOnElement ''drop''
      (dropEvent [File ''a'']) (run exampleOperations exampleInstance))))"
proof -
  have cfg: "config_element exampleSettings = Some exampleElement"
    by (simp add: exampleSettings_def)
  have ls: "listeners exampleElement = [(''click'', Other 0)]"
    by (simp add: exampleElement_def)
  then have fresh: "\<forall>l \<in> set (listeners exampleElement). \<not> isBound (snd l)"
    by simp
  have v: "classList (element (fst (dispatchOnElement ''dragover'' (dropEvent [])
      exampleInstance))) = [''zone'', ''dragover'']"
    by (simp add: exampleInstance_value dropEvent_def handler_defs dispatchOnElement_def
        listenersFor_def Let_def)
  from drag_events_toggle_status_class
         [OF exampleInstance_eq cfg fresh, of "dropEvent [File ''a'']" exampleOperations]
    exampleInstance_eq cfg ls v
  show ?thesis by blast
qed

subsection \<open>Teardown\<close>

text \<open>
  For every instance the constructor returns, the bound drop listener of the host
  element and the bound change listener of the hidden input are still registered after
  \<open>cleanUp\<close>: the removers name the methods, which are other function objects than
  the listeners registered.
\<close>

lemma addEventListener_keeps:
  "x \<in> set (listeners el) \<Longrightarrow> x \<in> set (listeners (addEventListener n cb el))"
  by (simp add: addEventListener_def)

lemma addEventListener_adds: "(n, cb) \<in> set (listeners (addEventListener n cb el))"
  by (simp add: addEventListener_def)

lemma runEventRemovers_keeps:
  "x \<in> set (listeners el) \<Longrightarrow> x \<notin> set rs \<Longrightarrow>
     x \<in> set (listeners (runEventRemovers rs el))"
  by (induction rs arbitrary: el) (auto simp: removeEventListener_def)

lemma bound_listeners_survive_cleanUp:
  assumes "constructor (Some config) = Inr this"
  shows "(''drop'', Bound OnElementDrop) \<in> set (listeners (element (cleanUp this)))"
    and "(''change'', Bound OnVirtualInputElementChange) \<in>
           set (listeners (virtualInputElement (cleanUp this)))"
proof -
  from assms obtain this0 where
    this_eq: "this = registerVirtualInputElementEvents (registerElementEvents this0)"
    by (auto simp: constructor_def Let_def split: option.splits)
  let ?this1 = "registerElementEvents this0"
  have el: "element this =
      fst (registerElementEventsWithDictionary (element this0) getElementEventsDictionary)"
    and rm: "elementEventsRemover this =
      snd (registerElementEventsWithDictionary (element this0) getElementEventsDictionary)"
    and inp: "virtualInputElement this =
      fst (registerElementEventsWithDictionary (virtualInputElement ?this1)
        getVirtualInputElementEventsDictionary)"
    and irm: "virtualInputElementEventsRemover this =
      snd (registerElementEventsWithDictionary (virtualInputElement ?this1)
        getVirtualInputElementEventsDictionary)"
    by (simp_all add: this_eq registerVirtualInputElementEvents_def registerElementEvents_def
        split: prod.splits)
  have a: "(''drop'', Bound OnElementDrop) \<in> set (listeners (element this))"
    by (simp add: el register_eq getElementEventsDictionary_def addEventListener_keeps
        addEventListener_adds)
  have b: "(''drop'', Bound OnElementDrop) \<notin> set (elementEventsRemover this)"
    by (simp add: rm register_eq getElementEventsDictionary_def)
  have c: "(''change'', Bound OnVirtualInputElementChange) \<in>
      set (listeners (virtualInputElement this))"
    by (simp add: inp register_eq getVirtualInputElementEventsDictionary_def
        addEventListener_adds)
  have d: "(''change'', Bound OnVirtualInputElementChange) \<notin>
      set (virtualInputElementEventsRemover this)"
    by (simp add: irm register_eq getVirtualInputElementEventsDictionary_def)
  from runEventRemovers_keeps [OF a b]
  show "(''drop'', Bound OnElementDrop) \<in> set (listeners (element (cleanUp this)))"
    by (simp add: cleanUp_def Let_def)
  from runEventRemovers_keeps [OF c d]
  show "(''change'', Bound OnVirtualInputElementChange) \<in>
           set (listeners (virtualInputElement (cleanUp this)))"
    by (simp add: cleanUp_def Let_def)
qed

text \<open>
  C5. The instance constructed from \<open>exampleSettings\<close>, after \<open>cleanUp\<close>: the listener
  tables of the host element and of the hidden input are what they were before
  \<open>cleanUp\<close>, since every remover names the method itself while the listener registered
  is the function \<^verbatim>\<open>bind\<close> returned. A drop fired on the host element after \<open>cleanUp\<close>
  still emits a notification, and so does a change fired on the hidden input.
\<close>

theorem cleanUp_leaves_listeners_registered:
  "listeners (element (cleanUp exampleInstance)) = listeners (element exampleInstance) \<and>
   listeners (virtualInputElement (cleanUp exampleInstance)) =
     listeners (virtualInputElement exampleInstance) \<and>
   (''drop'', Bound OnElementDrop) \<in> set (listeners (element (cleanUp exampleInstance))) \<and>
   emitted (filesWereDroppedEvent (cleanUp exampleInstance)) = [] \<and>
   emitted (filesWereDroppedEvent
     (fst (dispatchOnElement ''drop'' (dropEvent [File ''a'']) (cleanUp exampleInstance)))) =
     [[File ''a'']] \<and>
   emitted (filesWereDroppedEvent
     (fst (dispatchOnVirtualInput ''change'' (changeEvent [File ''b''])
        (cleanUp exampleInstance)))) =
     [[File ''b'']]"
  by (simp add: exampleInstance_value dropEvent_def changeEvent_def handler_defs
      dispatchOnElement_def dispatchOnVirtualInput_def listenersFor_def Let_def cleanUp_def
      removeEventListener_def)

subsection \<open>The multiple-files setting\<close>

text \<open>
  C7. An instance constructed with \<open>acceptsMultipleFiles = false\<close> has the attribute
  \<open>multiple\<close> of its hidden input set to \<open>false\<close>; a drop whose payload holds the files
  \<open>fs\<close>, three of them or any other number, is handled without an exception, after
  it \<open>getLatestDroppedFiles\<close> returns all of \<open>fs\<close>, and the one notification emitted
  carries all of \<open>fs\<close>.
\<close>

theorem single_file_mode_keeps_all_dropped_files:
  assumes "constructor (Some config) = Inr this"
    and "config_acceptsMultipleFiles config = Some False"
    and "dataTransfer e = Some (DataTransfer (Some fs))"
  shows "\<not> throws (onElementDrop this e) \<and>
         attributes (virtualInputElement this) ''multiple'' = Some ''false'' \<and>
         getLatestDroppedFiles (fst (final (onElementDrop this e))) = fs \<and>
         length (getLatestDroppedFiles (fst (final (onElementDrop this e)))) = length fs \<and>
         emitted (filesWereDroppedEvent (fst (final (onElementDrop this e)))) = [fs]"
  using assms(3) constructor_Inr(2,5) [OF assms(1)] assms(2)
  by (simp add: handler_defs Let_def boolean_toString_def)

theorem single_file_mode_witness:
  "constructor (Some singleFileSettings) = Inr singleFileInstance \<and>
   config_acceptsMultipleFiles singleFileSettings = Some False \<and>
   attributes (virtualInputElement singleFileInstance) ''multiple'' = Some ''false'' \<and>
   getLatestDroppedFiles
     (fst (final (onElementDrop singleFileInstance
        (dropEvent [File ''a'', File ''b'', File ''c''])))) =
     [File ''a'', File ''b'', File ''c''] \<and>
   length (getLatestDroppedFiles
     (fst (final (onElementDrop singleFileInstance
        (dropEvent [File ''a'', File ''b'', File ''c'']))))) = 3 \<and>
   emitted (filesWereDroppedEvent
     (fst (final (onElementDrop singleFileInstance
        (dropEvent [File ''a'', File ''b'', File ''c'']))))) =
     [[File ''a'', File ''b'', File ''c'']]"
proof -
  have c: "config_acceptsMultipleFiles singleFileSettings = Some False"
    by (simp add: singleFileSettings_def)
  have d: "dataTransfer (dropEvent [File ''a'', File ''b'', File ''c'']) =
      Some (DataTransfer (Some [File ''a'', File ''b'', File ''c'']))"
    by (simp add: dropEvent_def)
  from single_file_mode_keeps_all_dropped_files [OF singleFileInstance_eq c d]
    singleFileInstance_eq c
  show ?thesis by simp
qed

text \<open>
  C10. \<open>setAcceptsMultipleFiles b\<close> sets the attribute \<open>multiple\<close> of the hidden input to
  the string of \<open>b\<close>. With \<open>false\<close> the attribute is present, set to the string
  \<open>false\<close>. The instance after the call is the instance before it with that one
  attribute of the hidden input set: no field of the instance holds the boolean.
\<close>

theorem setAcceptsMultipleFiles_sets_attribute_only:
  "attributes (virtualInputElement (setAcceptsMultipleFiles b this)) ''multiple'' =
     Some (if b then ''true'' else ''false'') \<and>
   attributes (virtualInputElement (setAcceptsMultipleFiles False this)) ''multiple'' =
     Some ''false'' \<and>
   setAcceptsMultipleFiles b this =
     this\<lparr>virtualInputElement :=
       (virtualInputElement this)
         \<lparr>attributes := (attributes (virtualInputElement this))
            (''multiple'' \<mapsto> (if b then ''true'' else ''false''))\<rparr>\<rparr>"
  by (simp add: setAcceptsMultipleFiles_def setAttribute_def boolean_toString_def)

subsection \<open>Construction\<close>

text \<open>
  C8. The constructor applied to settings without a host element, whatever their other
  fields, and the constructor applied to no settings at all, throws the error
  \<^verbatim>\<open>config.element: HTMLElement is required\<close>; no instance results.
\<close>

theorem constructor_requires_element:
  "constructor (Some (config\<lparr>config_element := None\<rparr>)) =
     Inl (Error ''config.element: HTMLElement is required'') \<and>
   constructor None = Inl (Error ''config.element: HTMLElement is required'')"
  by (simp add: constructor_def emptySettings_def)

text \<open>
  C9. For every host element, the constructor applied to settings that hold only this
  element returns an instance that is clickable, appends status classes, has the
  attribute \<open>multiple\<close> of its hidden input set to \<open>true\<close> (the multiple-files setting
  has no other place in an instance), and whose \<open>getLatestDroppedFiles\<close> returns the
  empty list.
\<close>

theorem constructor_defaults:
  "\<exists>this.
     constructor
       (Some \<lparr>config_element = Some el, config_appendStatusClasses = None,
              config_acceptsMultipleFiles = None, config_isClickable = None,
              config_eventConfig = None\<rparr>) = Inr this \<and>
     isClickable this \<and>
     appendStatusClasses this \<and>
     attributes (virtualInputElement this) ''multiple'' = Some ''true'' \<and>
     getLatestDroppedFiles this = []"
proof -
  let ?config = "\<lparr>config_element = Some el, config_appendStatusClasses = None,
              config_acceptsMultipleFiles = None, config_isClickable = None,
              config_eventConfig = None\<rparr>"
  obtain this where c: "constructor (Some ?config) = Inr this"
    by (simp add: constructor_def Let_def)
  from constructor_Inr [OF c] have
    "isClickable this" "appendStatusClasses this"
    "attributes (virtualInputElement this) ''multiple'' = Some ''true''"
    "getLatestDroppedFiles this = []"
    by (simp_all add: boolean_toString_def getLatestDroppedFiles_def)
  with c show ?thesis by blast
qed

end
